theory Spec2Isabelle
  imports Main
begin

section \<open>The Kubernetes workload scaler\<close>

text \<open>
  A shallow embedding of \<^verbatim>\<open>pkg/scalers/kubernetes_workload_scaler.go\<close>.
  Go's multi-value returns \<^verbatim>\<open>(x, error)\<close> are pairs whose second component is
  \<open>None\<close> for \<^verbatim>\<open>nil\<close>; a pointer result that may be \<^verbatim>\<open>nil\<close> is an
  \<open>option\<close>. The packages the file calls but does not contain (the label selector
  parser, the cluster client, the clock) are parameters of the functions that use them.
\<close>

subsection \<open>Errors\<close>

text \<open>
  A Go \<^verbatim>\<open>error\<close> value. \<open>Errorf m\<close> is what \<^verbatim>\<open>fmt.Errorf\<close> builds from a format
  without the \<^verbatim>\<open>%w\<close> verb: a fresh value that carries the message \<open>m\<close> and nothing
  else. \<open>ForeignError m\<close> is an error value of any other package (the cluster client,
  the selector parser) whose \<^verbatim>\<open>Error()\<close> method prints \<open>m\<close>.
\<close>

datatype error = Errorf string | ForeignError string

fun Error :: "error \<Rightarrow> string" where
  "Error (Errorf m) = m"
| "Error (ForeignError m) = m"

subsection \<open>Data\<close>

text \<open>
  \<^verbatim>\<open>corev1.PodPhase\<close> is a string type; its named constants are the five below, and
  any other string (the empty one included) is a value of the type.
\<close>

type_synonym PodPhase = string

definition PodPending :: PodPhase where "PodPending = ''Pending''"
definition PodRunning :: PodPhase where "PodRunning = ''Running''"
definition PodSucceeded :: PodPhase where "PodSucceeded = ''Succeeded''"
definition PodFailed :: PodPhase where "PodFailed = ''Failed''"
definition PodUnknown :: PodPhase where "PodUnknown = ''Unknown''"

record PodStatus =
  Phase :: PodPhase

record Pod =
  Status :: PodStatus

definition countIgnoresPhases :: "PodPhase list" where
  "countIgnoresPhases = [PodSucceeded, PodFailed, PodUnknown]"

record 'sel kubernetesWorkloadMetadata =
  podSelector :: 'sel
  namespace :: string
  targetValue :: int
  scalerIndex :: int

text \<open>
  The field \<open>targetValue\<close> is the source's \<^verbatim>\<open>value int64\<close>. Its only writer is
  \<^verbatim>\<open>strconv.ParseInt(_, 10, 64)\<close>, which checks the range, and no arithmetic is done
  on it, so it is an \<open>int\<close>.
\<close>

record 'sel ListOptions =
  LabelSelector :: 'sel
  ListNamespace :: string

text \<open>
  \<^verbatim>\<open>kubeClient.List(ctx, podList, opts...)\<close> fills \<^verbatim>\<open>podList\<close> and returns an
  error. The client is a function from the options to the items found in the list after
  the call and the error returned; the context is part of the client (a cancelled
  context is a client that returns an error).
\<close>

type_synonym 'sel Client = "'sel ListOptions \<Rightarrow> Pod list \<times> error option"

record 'sel kubernetesWorkloadScaler =
  metadata :: "'sel kubernetesWorkloadMetadata"
  kubeClient :: "'sel Client"

subsection \<open>Counting pods\<close>

text \<open>The loop of \<^verbatim>\<open>getCountValue\<close> over the ignored phases, with its early return.\<close>

fun getCountValue_loop :: "PodPhase list \<Rightarrow> Pod \<Rightarrow> int" where
  "getCountValue_loop [] pod = 1"
| "getCountValue_loop (ignore # rest) pod =
     (if Phase (Status pod) = ignore then 0 else getCountValue_loop rest pod)"

definition getCountValue :: "Pod \<Rightarrow> int" where
  "getCountValue pod = getCountValue_loop countIgnoresPhases pod"

text \<open>
  The loop of \<^verbatim>\<open>getMetricValue\<close> over the items, with the running \<^verbatim>\<open>count\<close>.
  The count is a Go \<^verbatim>\<open>int\<close>; it is at most the length of a slice, which is itself an
  \<^verbatim>\<open>int\<close>, so the additions never wrap and the count is an \<open>int\<close> here.
\<close>

fun getMetricValue_loop :: "int \<Rightarrow> Pod list \<Rightarrow> int" where
  "getMetricValue_loop count [] = count"
| "getMetricValue_loop count (pod # pods) =
     getMetricValue_loop (count + getCountValue pod) pods"

definition getMetricValue :: "'sel kubernetesWorkloadScaler \<Rightarrow> int \<times> error option" where
  "getMetricValue s =
     (let listOptions = \<lparr>LabelSelector = podSelector (metadata s),
                          ListNamespace = namespace (metadata s)\<rparr>;
          (items, err) = kubeClient s listOptions
      in case err of
           Some e \<Rightarrow> (0, Some e)
         | None \<Rightarrow> (getMetricValue_loop 0 items, None))"

text \<open>\<^verbatim>\<open>IsActive\<close>: whether there is something to scale from zero for.\<close>

definition IsActive :: "'sel kubernetesWorkloadScaler \<Rightarrow> bool \<times> error option" where
  "IsActive s =
     (let (pods, err) = getMetricValue s
      in case err of
           Some e \<Rightarrow> (False, Some e)
         | None \<Rightarrow> (pods > 0, None))"

text \<open>\<^verbatim>\<open>Close\<close> has nothing to release.\<close>

definition Close :: "'sel kubernetesWorkloadScaler \<Rightarrow> error option" where
  "Close s = None"

subsection \<open>The packages the scaler calls\<close>

text \<open>
  \<^verbatim>\<open>k8s.io/apimachinery/pkg/labels\<close>: \<open>labels_Parse\<close> is \<^verbatim>\<open>labels.Parse\<close>, which
  returns a selector or an error, and \<open>Selector_String\<close> is the \<^verbatim>\<open>String()\<close>
  method of a selector. Both are parameters: every result below holds for any parser.
\<close>

record 'sel labels =
  labels_Parse :: "string \<Rightarrow> error + 'sel"
  Selector_String :: "'sel \<Rightarrow> string"

text \<open>
  \<^verbatim>\<open>strconv.ParseInt(s, 10, 64)\<close> of Go's standard library, following its source:
  an optional sign, then \<^verbatim>\<open>ParseUint\<close> on the rest, which reads decimal digits
  only and stops with a range error as soon as the number leaves 64 bits; then the signed
  range is checked. The result is the pair \<^verbatim>\<open>(i, err)\<close>.
\<close>

datatype NumError = ErrSyntax | ErrRange

definition maxUint64 :: nat where
  "maxUint64 = 18446744073709551615"

text \<open>A byte as a number: \<^verbatim>\<open>'0' <= c && c <= '9'\<close> and \<^verbatim>\<open>d = c - '0'\<close>.\<close>

definition isDigit :: "char \<Rightarrow> bool" where
  "isDigit c = (48 \<le> (of_char c :: nat) \<and> (of_char c :: nat) \<le> 57)"

definition digitVal :: "char \<Rightarrow> nat" where
  "digitVal c = of_char c - 48"

fun ParseUint_loop :: "nat \<Rightarrow> string \<Rightarrow> nat \<times> NumError option" where
  "ParseUint_loop n [] = (n, None)"
| "ParseUint_loop n (c # cs) =
     (if isDigit c then
        (if n \<ge> maxUint64 div 10 + 1 then (maxUint64, Some ErrRange)
         else let n1 = n * 10 + digitVal c
              in if n1 > maxUint64 then (maxUint64, Some ErrRange)
                 else ParseUint_loop n1 cs)
      else (0, Some ErrSyntax))"

definition ParseUint :: "string \<Rightarrow> nat \<times> NumError option" where
  "ParseUint s = (if s = [] then (0, Some ErrSyntax) else ParseUint_loop 0 s)"

definition ParseInt :: "string \<Rightarrow> int \<times> NumError option" where
  "ParseInt s0 =
     (if s0 = [] then (0, Some ErrSyntax)
      else
        let neg = (hd s0 = CHR ''-'');
            s = (if hd s0 = CHR ''+'' \<or> hd s0 = CHR ''-'' then tl s0 else s0);
            (un, err) = ParseUint s;
            cutoff = (2::nat) ^ 63
        in if err = Some ErrSyntax then (0, err)
           else if \<not> neg \<and> un \<ge> cutoff then (int cutoff - 1, Some ErrRange)
           else if neg \<and> un > cutoff then (- int cutoff, Some ErrRange)
           else (if neg then - int un else int un, None))"

subsection \<open>Reading the trigger configuration\<close>

text \<open>
  The fields of \<^verbatim>\<open>ScalerConfig\<close> that the scaler reads. \<^verbatim>\<open>TriggerMetadata\<close> is a
  \<^verbatim>\<open>map[string]string\<close>; reading a key that is not there gives the empty string.
\<close>

record ScalerConfig =
  Namespace :: string
  TriggerMetadata :: "string \<rightharpoonup> string"
  ScalerIndex :: int

definition lookup :: "(string \<rightharpoonup> string) \<Rightarrow> string \<Rightarrow> string" where
  "lookup m k = (case m k of None \<Rightarrow> [] | Some v \<Rightarrow> v)"

definition kubernetesWorkloadMetricType :: string where
  "kubernetesWorkloadMetricType = ''External''"

definition podSelectorKey :: string where
  "podSelectorKey = ''podSelector''"

definition valueKey :: string where
  "valueKey = ''value''"

definition parseWorkloadMetadata ::
  "'sel labels \<Rightarrow> ScalerConfig \<Rightarrow> 'sel kubernetesWorkloadMetadata option \<times> error option" where
  "parseWorkloadMetadata L config =
     (case labels_Parse L (lookup (TriggerMetadata config) podSelectorKey) of
        Inl err \<Rightarrow> (None, Some (Errorf ''invalid pod selector''))
      | Inr sel \<Rightarrow>
          if Selector_String L sel = [] then (None, Some (Errorf ''invalid pod selector''))
          else
            (case ParseInt (lookup (TriggerMetadata config) valueKey) of
               (v, Some err) \<Rightarrow> (None, Some (Errorf ''value must be an integer greater than 0''))
             | (v, None) \<Rightarrow>
                 if v = 0 then (None, Some (Errorf ''value must be an integer greater than 0''))
                 else (Some \<lparr>podSelector = sel, namespace = Namespace config,
                              targetValue = v, scalerIndex = ScalerIndex config\<rparr>, None)))"

text \<open>
  \<^verbatim>\<open>NewKubernetesWorkloadScaler\<close>. The source stores the pointer it got from
  \<^verbatim>\<open>parseWorkloadMetadata\<close> whenever the error is \<^verbatim>\<open>nil\<close>; that pointer is never
  \<^verbatim>\<open>nil\<close> then (lemma \<open>parseWorkloadMetadata_result\<close>), so the last case below is
  never taken.
\<close>

definition NewKubernetesWorkloadScaler ::
  "'sel labels \<Rightarrow> 'sel Client \<Rightarrow> ScalerConfig \<Rightarrow> 'sel kubernetesWorkloadScaler option \<times> error option" where
  "NewKubernetesWorkloadScaler L client config =
     (case parseWorkloadMetadata L config of
        (meta, Some parseErr) \<Rightarrow>
          (None, Some (Errorf (''error parsing kubernetes workload metadata: '' @ Error parseErr)))
      | (Some meta, None) \<Rightarrow> (Some \<lparr>metadata = meta, kubeClient = client\<rparr>, None)
      | (None, None) \<Rightarrow> (None, None))"

subsection \<open>The metric specification and the metric values\<close>

datatype Format = DecimalExponent | BinarySI | DecimalSI

record Quantity =
  Amount :: int
  QuantityFormat :: Format

definition NewQuantity :: "int \<Rightarrow> Format \<Rightarrow> Quantity" where
  "NewQuantity v f = \<lparr>Amount = v, QuantityFormat = f\<rparr>"

record MetricIdentifier =
  Name :: string

record MetricTarget =
  TargetType :: string
  AverageValue :: "Quantity option"

record ExternalMetricSource =
  Metric :: MetricIdentifier
  Target :: MetricTarget

record MetricSpec =
  External :: "ExternalMetricSource option"
  Type :: string

definition AverageValueMetricType :: string where
  "AverageValueMetricType = ''AverageValue''"

type_synonym Time = int

record ExternalMetricValue =
  MetricName :: string
  Value :: Quantity
  Timestamp :: Time

text \<open>The decimal digits of a number, as \<^verbatim>\<open>%d\<close> prints them.\<close>

definition digitChar :: "nat \<Rightarrow> char" where
  "digitChar d = ''0123456789'' ! d"

fun utoa :: "nat \<Rightarrow> string" where
  "utoa n = (if n < 10 then [digitChar n] else utoa (n div 10) @ [digitChar (n mod 10)])"

declare utoa.simps [simp del]

definition itoa :: "int \<Rightarrow> string" where
  "itoa i = (if i < 0 then CHR ''-'' # utoa (nat (- i)) else utoa (nat i))"

text \<open>
  Modelled from the spec: \<^verbatim>\<open>GenerateMetricNameWithIndex\<close> (package scalers, not in
  the sources at hand). The spec gives the metric identifier the format
  \<^verbatim>\<open>{scalerIndex}-workload-{normalizedNamespace}\<close>: the index in decimal, a hyphen,
  and the name it is given.
\<close>

definition GenerateMetricNameWithIndex :: "int \<Rightarrow> string \<Rightarrow> string" where
  "GenerateMetricNameWithIndex i metricName = itoa i @ ''-'' @ metricName"

text \<open>
  Modelled from the spec: \<^verbatim>\<open>kedautil.NormalizeString\<close> (package util, not in the
  sources at hand). The spec: normalization strips characters illegal in a metric
  identifier. Which characters are legal is not said, so the test is a parameter.
\<close>

definition NormalizeString :: "(char \<Rightarrow> bool) \<Rightarrow> string \<Rightarrow> string" where
  "NormalizeString legal s = filter legal s"

definition GetMetricSpecForScaling ::
  "(char \<Rightarrow> bool) \<Rightarrow> 'sel kubernetesWorkloadScaler \<Rightarrow> MetricSpec list" where
  "GetMetricSpecForScaling legal s =
     (let targetMetricValue = NewQuantity (targetValue (metadata s)) DecimalSI;
          externalMetric =
            \<lparr>Metric = \<lparr>Name = GenerateMetricNameWithIndex (scalerIndex (metadata s))
                                (NormalizeString legal (''workload-'' @ namespace (metadata s)))\<rparr>,
             Target = \<lparr>TargetType = AverageValueMetricType,
                       AverageValue = Some targetMetricValue\<rparr>\<rparr>;
          metricSpec = \<lparr>External = Some externalMetric, Type = kubernetesWorkloadMetricType\<rparr>
      in [metricSpec])"

text \<open>The names of the external metrics that a list of specs announces.\<close>

definition metricNames :: "MetricSpec list \<Rightarrow> string list" where
  "metricNames specs =
     concat (map (\<lambda>spec. case External spec of None \<Rightarrow> [] | Some ext \<Rightarrow> [Name (Metric ext)]) specs)"

text \<open>
  \<^verbatim>\<open>GetMetrics\<close>. The reading of the clock (\<^verbatim>\<open>metav1.Now()\<close>) is the parameter
  \<open>now\<close>; \<open>metricSelector\<close> is the selector the caller passes along with the name.
\<close>

definition GetMetrics ::
  "'sel kubernetesWorkloadScaler \<Rightarrow> Time \<Rightarrow> string \<Rightarrow> 'msel \<Rightarrow> ExternalMetricValue list \<times> error option" where
  "GetMetrics s now metricName metricSelector =
     (let (pods, err) = getMetricValue s
      in case err of
           Some e \<Rightarrow> ([], Some (Errorf (''error inspecting kubernetes workload: '' @ Error e)))
         | None \<Rightarrow>
             (let metric = \<lparr>MetricName = metricName,
                             Value = NewQuantity pods DecimalSI,
                             Timestamp = now\<rparr>
              in ([] @ [metric], None)))"

subsection \<open>Instances to run the model on\<close>

text \<open>
  A small selector package: a selector is kept as its text. The empty text is the
  selector with no requirement, which prints as the empty string; a text with an
  equals sign is taken as it is; anything else is refused.
\<close>

definition textLabels :: "string labels" where
  "textLabels =
     \<lparr>labels_Parse = (\<lambda>s. if s = [] \<or> CHR ''='' \<in> set s then Inr s
                            else Inl (ForeignError ''unable to parse requirement'')),
      Selector_String = (\<lambda>sel. sel)\<rparr>"

definition mkPod :: "PodPhase \<Rightarrow> Pod" where
  "mkPod ph = \<lparr>Status = \<lparr>Phase = ph\<rparr>\<rparr>"

text \<open>A trigger configuration with the given metadata.\<close>

definition mkConfig :: "(string \<rightharpoonup> string) \<Rightarrow> ScalerConfig" where
  "mkConfig m = \<lparr>Namespace = ''prod'', TriggerMetadata = m, ScalerIndex = 0\<rparr>"

text \<open>A client that finds the given pods, and one whose query fails.\<close>

definition okClient :: "Pod list \<Rightarrow> 'sel Client" where
  "okClient pods = (\<lambda>opts. (pods, None))"

definition failingClient :: "error \<Rightarrow> 'sel Client" where
  "failingClient e = (\<lambda>opts. ([], Some e))"

definition mkScaler :: "string Client \<Rightarrow> string kubernetesWorkloadScaler" where
  "mkScaler c =
     \<lparr>metadata = \<lparr>podSelector = ''app=web'', namespace = ''prod'',
                   targetValue = 5, scalerIndex = 0\<rparr>,
      kubeClient = c\<rparr>"

section \<open>Properties\<close>

subsection \<open>Counting: the phases that count\<close>

lemma getCountValue_cases:
  "getCountValue pod =
     (if Phase (Status pod) \<in> {PodSucceeded, PodFailed, PodUnknown} then 0 else 1)"
  by (simp add: getCountValue_def countIgnoresPhases_def)

lemma getMetricValue_loop_acc:
  "getMetricValue_loop count pods = count + getMetricValue_loop 0 pods"
proof (induction pods arbitrary: count)
  case Nil
  show ?case by simp
next
  case (Cons pod pods)
  have "getMetricValue_loop count (pod # pods)
          = getMetricValue_loop (count + getCountValue pod) pods"
    by simp
  also have "\<dots> = (count + getCountValue pod) + getMetricValue_loop 0 pods"
    by (rule Cons.IH)
  also have "\<dots> = count + (getCountValue pod + getMetricValue_loop 0 pods)"
    by simp
  also have "getCountValue pod + getMetricValue_loop 0 pods
               = getMetricValue_loop (0 + getCountValue pod) pods"
    by (simp add: Cons.IH [of "getCountValue pod"])
  finally show ?case by simp
qed

lemma getMetricValue_loop_sum:
  "getMetricValue_loop 0 pods = (\<Sum>pod \<leftarrow> pods. getCountValue pod)"
proof (induction pods)
  case Nil
  show ?case by simp
next
  case (Cons pod pods)
  then show ?case
    using getMetricValue_loop_acc [of "getCountValue pod" pods] by simp
qed

lemma getMetricValue_loop_filter:
  "getMetricValue_loop 0 pods =
     int (length (filter (\<lambda>pod. Phase (Status pod) \<notin> {PodSucceeded, PodFailed, PodUnknown}) pods))"
proof (induction pods)
  case Nil
  show ?case by simp
next
  case (Cons pod pods)
  then show ?case
    using getMetricValue_loop_acc [of "getCountValue pod" pods]
    by (simp add: getCountValue_cases)
qed

lemma getMetricValue_ok:
  "kubeClient s \<lparr>LabelSelector = podSelector (metadata s),
                   ListNamespace = namespace (metadata s)\<rparr> = (items, None)
   \<Longrightarrow> getMetricValue s = (getMetricValue_loop 0 items, None)"
  by (simp add: getMetricValue_def)

lemma getMetricValue_err:
  "kubeClient s \<lparr>LabelSelector = podSelector (metadata s),
                   ListNamespace = namespace (metadata s)\<rparr> = (items, Some e)
   \<Longrightarrow> getMetricValue s = (0, Some e)"
  by (simp add: getMetricValue_def)

lemmas phase_defs = PodPending_def PodRunning_def PodSucceeded_def PodFailed_def PodUnknown_def

text \<open>
  Claim C1. Whatever pods the cluster query returns, \<open>getMetricValue\<close> returns the
  number of them whose phase is none of Succeeded, Failed and Unknown: it is the sum of
  the pods' contributions, and a pod contributes 0 when its phase is one of the three
  and 1 otherwise (any other phase, the empty one included).
\<close>

theorem getMetricValue_counts_active_pods:
  assumes "kubeClient s \<lparr>LabelSelector = podSelector (metadata s),
                          ListNamespace = namespace (metadata s)\<rparr> = (pods, None)"
  shows "getMetricValue s =
           (int (length (filter (\<lambda>pod. Phase (Status pod) \<notin> {PodSucceeded, PodFailed, PodUnknown})
                           pods)), None)
         \<and> getMetricValue s = ((\<Sum>pod \<leftarrow> pods. getCountValue pod), None)
         \<and> (\<forall>pod. getCountValue pod =
               (if Phase (Status pod) \<in> {PodSucceeded, PodFailed, PodUnknown} then 0 else 1))"
proof -
  let ?counts = "\<lambda>pod. Phase (Status pod) \<notin> {PodSucceeded, PodFailed, PodUnknown}"
  have run: "getMetricValue s = (getMetricValue_loop 0 pods, None)"
    using assms by (rule getMetricValue_ok)
  have number: "getMetricValue_loop 0 pods = int (length (filter ?counts pods))"
    by (rule getMetricValue_loop_filter)
  have total: "getMetricValue_loop 0 pods = (\<Sum>pod \<leftarrow> pods. getCountValue pod)"
    by (rule getMetricValue_loop_sum)
  have one: "getMetricValue s = (int (length (filter ?counts pods)), None)"
    using run number by simp
  have two: "getMetricValue s = ((\<Sum>pod \<leftarrow> pods. getCountValue pod), None)"
    using run total by simp
  have three: "\<forall>pod. getCountValue pod =
               (if Phase (Status pod) \<in> {PodSucceeded, PodFailed, PodUnknown} then 0 else 1)"
    using getCountValue_cases by blast
  from one two three show ?thesis by blast
qed

text \<open>
  The example of the claim: the phases Running, Pending, Succeeded, Failed, Unknown
  give the count 2; and a pod with the empty phase counts.
\<close>

theorem getMetricValue_counts_active_pods_witness:
  "getMetricValue (mkScaler (okClient
       (map mkPod [PodRunning, PodPending, PodSucceeded, PodFailed, PodUnknown]))) = (2, None)
   \<and> getCountValue (mkPod []) = 1"
  using getMetricValue_counts_active_pods
          [of "mkScaler (okClient (map mkPod [PodRunning, PodPending, PodSucceeded, PodFailed, PodUnknown]))"
              "map mkPod [PodRunning, PodPending, PodSucceeded, PodFailed, PodUnknown]"]
  by (simp add: mkScaler_def okClient_def mkPod_def phase_defs)

subsection \<open>IsActive\<close>

text \<open>
  Claim C4. Whenever the query succeeds, \<open>IsActive\<close> returns \<^verbatim>\<open>true\<close> exactly when
  the count of \<open>getMetricValue\<close> is greater than zero, and no error.
\<close>

theorem IsActive_iff_count_positive:
  assumes "snd (getMetricValue s) = None"
  shows "IsActive s = (fst (getMetricValue s) > 0, None)"
proof (cases "getMetricValue s")
  case (Pair pods err)
  with assms have "err = None" by simp
  with Pair show ?thesis by (simp add: IsActive_def)
qed

theorem IsActive_iff_count_positive_witness:
  "IsActive (mkScaler (okClient (map mkPod [PodRunning, PodFailed]))) = (True, None)
   \<and> IsActive (mkScaler (okClient (map mkPod [PodSucceeded, PodFailed]))) = (False, None)
   \<and> IsActive (mkScaler (okClient [])) = (False, None)"
  using IsActive_iff_count_positive [of "mkScaler (okClient (map mkPod [PodRunning, PodFailed]))"]
        IsActive_iff_count_positive [of "mkScaler (okClient (map mkPod [PodSucceeded, PodFailed]))"]
        IsActive_iff_count_positive [of "mkScaler (okClient [])"]
  by (simp add: getMetricValue_def mkScaler_def okClient_def mkPod_def phase_defs
        getCountValue_def countIgnoresPhases_def)

text \<open>
  Claim C9. When the cluster query fails, \<open>IsActive\<close> returns \<^verbatim>\<open>false\<close> together
  with the error; and no scaler ever returns \<^verbatim>\<open>true\<close> alongside an error.
\<close>

theorem IsActive_false_with_error:
  assumes "kubeClient s \<lparr>LabelSelector = podSelector (metadata s),
                          ListNamespace = namespace (metadata s)\<rparr> = (items, Some e)"
  shows "IsActive s = (False, Some e)
         \<and> (\<forall>t :: 'sel kubernetesWorkloadScaler. snd (IsActive t) \<noteq> None \<longrightarrow> \<not> fst (IsActive t))"
proof -
  have "getMetricValue s = (0, Some e)"
    using assms by (rule getMetricValue_err)
  then have here: "IsActive s = (False, Some e)"
    by (simp add: IsActive_def)
  have never: "snd (IsActive t) \<noteq> None \<longrightarrow> \<not> fst (IsActive t)"
    for t :: "'sel kubernetesWorkloadScaler"
    by (cases "getMetricValue t") (simp add: IsActive_def split: option.splits)
  from here never show ?thesis by blast
qed

theorem IsActive_false_with_error_witness:
  "IsActive (mkScaler (failingClient (ForeignError ''connection refused'')))
     = (False, Some (ForeignError ''connection refused''))"
proof -
  let ?s = "mkScaler (failingClient (ForeignError ''connection refused''))"
  have "kubeClient ?s \<lparr>LabelSelector = podSelector (metadata ?s),
                         ListNamespace = namespace (metadata ?s)\<rparr>
          = ([], Some (ForeignError ''connection refused''))"
    by (simp add: mkScaler_def failingClient_def)
  from IsActive_false_with_error [OF this] show ?thesis
    by (rule conjunct1)
qed

subsection \<open>GetMetrics\<close>

lemma GetMetrics_ok:
  "getMetricValue s = (pods, None) \<Longrightarrow>
   GetMetrics s now metricName sel =
     ([\<lparr>MetricName = metricName, Value = NewQuantity pods DecimalSI, Timestamp = now\<rparr>], None)"
  by (simp add: GetMetrics_def)

lemma GetMetrics_err:
  "getMetricValue s = (pods, Some e) \<Longrightarrow>
   GetMetrics s now metricName sel =
     ([], Some (Errorf (''error inspecting kubernetes workload: '' @ Error e)))"
  by (simp add: GetMetrics_def)

lemma Errorf_prefix_neq: "p \<noteq> [] \<Longrightarrow> Errorf (p @ Error e) \<noteq> e"
proof (cases e)
  case (Errorf m)
  assume "p \<noteq> []"
  then have "length (p @ m) \<noteq> length m" by simp
  then have "p @ m \<noteq> m" by auto
  with Errorf show ?thesis by simp
next
  case (ForeignError m)
  then show ?thesis by simp
qed

text \<open>
  Claim C3, as amended. When the cluster query fails with the error \<open>e\<close>,
  \<open>IsActive\<close> returns \<open>e\<close> itself, and \<open>GetMetrics\<close> returns a new error built by
  \<^verbatim>\<open>fmt.Errorf\<close>, whose message is \<^verbatim>\<open>error inspecting kubernetes workload: \<close>
  followed by the message of \<open>e\<close>; that value is never \<open>e\<close>.
\<close>

theorem query_failure_propagation:
  assumes "kubeClient s \<lparr>LabelSelector = podSelector (metadata s),
                          ListNamespace = namespace (metadata s)\<rparr> = (items, Some e)"
  shows "snd (IsActive s) = Some e
         \<and> snd (GetMetrics s now metricName sel)
             = Some (Errorf (''error inspecting kubernetes workload: '' @ Error e))
         \<and> snd (GetMetrics s now metricName sel) \<noteq> Some e"
proof -
  have failed: "getMetricValue s = (0, Some e)"
    using assms by (rule getMetricValue_err)
  then have active: "snd (IsActive s) = Some e"
    by (simp add: IsActive_def)
  have wrapped: "snd (GetMetrics s now metricName sel)
                   = Some (Errorf (''error inspecting kubernetes workload: '' @ Error e))"
    by (simp add: GetMetrics_err [OF failed])
  have "Errorf (''error inspecting kubernetes workload: '' @ Error e) \<noteq> e"
    by (rule Errorf_prefix_neq) simp
  with wrapped have "snd (GetMetrics s now metricName sel) \<noteq> Some e"
    by simp
  with active wrapped show ?thesis by blast
qed

theorem query_failure_propagation_witness:
  "snd (IsActive (mkScaler (failingClient (ForeignError ''timeout'')))) = Some (ForeignError ''timeout'')
   \<and> snd (GetMetrics (mkScaler (failingClient (ForeignError ''timeout''))) 0 ''m'' ())
       = Some (Errorf ''error inspecting kubernetes workload: timeout'')"
proof -
  let ?s = "mkScaler (failingClient (ForeignError ''timeout''))"
  have "kubeClient ?s \<lparr>LabelSelector = podSelector (metadata ?s),
                         ListNamespace = namespace (metadata ?s)\<rparr>
          = ([], Some (ForeignError ''timeout''))"
    by (simp add: mkScaler_def failingClient_def)
  from query_failure_propagation [OF this, of 0 "''m''" "()"] show ?thesis
    by simp
qed

text \<open>
  Claim C3 as it is written fails: the client below fails with an error value that
  \<open>GetMetrics\<close> does not return.
\<close>

theorem GetMetrics_error_unchanged_counterexample:
  "kubeClient (mkScaler (failingClient (ForeignError ''timeout'')))
      \<lparr>LabelSelector = ''app=web'', ListNamespace = ''prod''\<rparr> = ([], Some (ForeignError ''timeout''))
   \<and> snd (GetMetrics (mkScaler (failingClient (ForeignError ''timeout''))) 0 ''m'' ())
       \<noteq> Some (ForeignError ''timeout'')"
  by (simp add: GetMetrics_def getMetricValue_def mkScaler_def failingClient_def)

text \<open>
  Claim C10. When the query succeeds \<open>GetMetrics\<close> returns a list of exactly one
  sample; when it fails, the empty list.
\<close>

theorem GetMetrics_sample_count:
  "(kubeClient s \<lparr>LabelSelector = podSelector (metadata s),
                   ListNamespace = namespace (metadata s)\<rparr> = (items, None)
      \<longrightarrow> length (fst (GetMetrics s now metricName sel)) = 1)
   \<and> (kubeClient s \<lparr>LabelSelector = podSelector (metadata s),
                     ListNamespace = namespace (metadata s)\<rparr> = (items, Some e)
      \<longrightarrow> fst (GetMetrics s now metricName sel) = []
          \<and> length (fst (GetMetrics s now metricName sel)) = 0)"
proof (intro conjI impI)
  assume "kubeClient s \<lparr>LabelSelector = podSelector (metadata s),
                         ListNamespace = namespace (metadata s)\<rparr> = (items, None)"
  then have "getMetricValue s = (getMetricValue_loop 0 items, None)"
    by (rule getMetricValue_ok)
  then show "length (fst (GetMetrics s now metricName sel)) = 1"
    by (simp add: GetMetrics_ok)
next
  assume "kubeClient s \<lparr>LabelSelector = podSelector (metadata s),
                         ListNamespace = namespace (metadata s)\<rparr> = (items, Some e)"
  then have "getMetricValue s = (0, Some e)"
    by (rule getMetricValue_err)
  then show a: "fst (GetMetrics s now metricName sel) = []"
    by (simp add: GetMetrics_err)
  then show "length (fst (GetMetrics s now metricName sel)) = 0" by simp
qed

theorem GetMetrics_sample_count_witness:
  "length (fst (GetMetrics (mkScaler (okClient (map mkPod [PodRunning, PodRunning, PodFailed])))
                  1700000000 ''s0-workload-prod'' ())) = 1
   \<and> fst (GetMetrics (mkScaler (failingClient (ForeignError ''timeout'')))
                  1700000000 ''s0-workload-prod'' ()) = []"
  using GetMetrics_sample_count
          [of "mkScaler (okClient (map mkPod [PodRunning, PodRunning, PodFailed]))"
              "map mkPod [PodRunning, PodRunning, PodFailed]" 1700000000 "''s0-workload-prod''" "()"]
        GetMetrics_sample_count
          [of "mkScaler (failingClient (ForeignError ''timeout''))"
              "[]" 1700000000 "''s0-workload-prod''" "()" "ForeignError ''timeout''"]
  by (simp add: mkScaler_def okClient_def failingClient_def)

text \<open>
  Claim C6. The result of \<open>GetMetrics\<close> is the same for any two selector arguments;
  when the query succeeds the one sample carries the name that was passed in, whatever
  that name is, and no sample ever carries another name.
\<close>

theorem GetMetrics_name_and_selector:
  "GetMetrics s now metricName sel1 = GetMetrics s now metricName sel2
   \<and> (snd (getMetricValue s) = None
        \<longrightarrow> map MetricName (fst (GetMetrics s now metricName sel1)) = [metricName])
   \<and> (\<forall>m \<in> set (fst (GetMetrics s now metricName sel1)). MetricName m = metricName)"
proof (cases "getMetricValue s")
  case (Pair pods err)
  show ?thesis
  proof (cases err)
    case None
    with Pair show ?thesis by (simp add: GetMetrics_def)
  next
    case (Some e)
    with Pair show ?thesis by (simp add: GetMetrics_def)
  qed
qed

theorem GetMetrics_name_and_selector_witness:
  "GetMetrics (mkScaler (okClient (map mkPod [PodRunning, PodPending]))) 1700000000 ''anything'' ''app=a''
     = GetMetrics (mkScaler (okClient (map mkPod [PodRunning, PodPending]))) 1700000000 ''anything'' ''app=b''
   \<and> fst (GetMetrics (mkScaler (okClient (map mkPod [PodRunning, PodPending]))) 1700000000 ''anything'' ''app=a'')
     = [\<lparr>MetricName = ''anything'', Value = \<lparr>Amount = 2, QuantityFormat = DecimalSI\<rparr>,
         Timestamp = 1700000000\<rparr>]"
  using GetMetrics_name_and_selector
          [of "mkScaler (okClient (map mkPod [PodRunning, PodPending]))" 1700000000 "''anything''"
              "''app=a''" "''app=b''"]
  by (simp add: GetMetrics_def getMetricValue_def mkScaler_def okClient_def mkPod_def phase_defs
        getCountValue_def countIgnoresPhases_def NewQuantity_def)

subsection \<open>Reading the trigger configuration\<close>

lemmas ParseInt_defs = ParseInt_def ParseUint_def isDigit_def digitVal_def maxUint64_def
lemmas key_defs = lookup_def podSelectorKey_def valueKey_def

lemma lookup_missing: "m k = None \<Longrightarrow> lookup m k = []"
  by (simp add: lookup_def)

lemma parseWorkloadMetadata_Parse_error:
  "labels_Parse L (lookup (TriggerMetadata config) podSelectorKey) = Inl err
   \<Longrightarrow> parseWorkloadMetadata L config = (None, Some (Errorf ''invalid pod selector''))"
  by (simp add: parseWorkloadMetadata_def)

lemma parseWorkloadMetadata_empty_selector:
  "labels_Parse L (lookup (TriggerMetadata config) podSelectorKey) = Inr sel
   \<Longrightarrow> Selector_String L sel = []
   \<Longrightarrow> parseWorkloadMetadata L config = (None, Some (Errorf ''invalid pod selector''))"
  by (simp add: parseWorkloadMetadata_def)

lemma parseWorkloadMetadata_value:
  "labels_Parse L (lookup (TriggerMetadata config) podSelectorKey) = Inr sel
   \<Longrightarrow> Selector_String L sel \<noteq> []
   \<Longrightarrow> ParseInt (lookup (TriggerMetadata config) valueKey) = (v, err)
   \<Longrightarrow> parseWorkloadMetadata L config =
        (if err \<noteq> None \<or> v = 0
         then (None, Some (Errorf ''value must be an integer greater than 0''))
         else (Some \<lparr>podSelector = sel, namespace = Namespace config,
                      targetValue = v, scalerIndex = ScalerIndex config\<rparr>, None))"
  by (cases err) (simp_all add: parseWorkloadMetadata_def)

lemma parseWorkloadMetadata_result:
  "parseWorkloadMetadata L config = (meta, err) \<Longrightarrow> (meta = None) = (err \<noteq> None)"
  by (auto simp: parseWorkloadMetadata_def split: sum.splits if_splits prod.splits option.splits)

lemma NewKubernetesWorkloadScaler_error:
  "parseWorkloadMetadata L config = (meta, Some parseErr)
   \<Longrightarrow> NewKubernetesWorkloadScaler L client config =
        (None, Some (Errorf (''error parsing kubernetes workload metadata: '' @ Error parseErr)))"
  by (cases meta) (simp_all add: NewKubernetesWorkloadScaler_def)

text \<open>
  Claim C8. A configuration is refused with the error \<^verbatim>\<open>invalid pod selector\<close>, and
  neither a descriptor nor a scaler is returned, when its selector text does not parse,
  when it parses to the selector that prints as the empty string, and when the key is
  missing: the parser is then given the empty string, for which \<^verbatim>\<open>labels.Parse\<close>
  returns the selector with no requirement.
\<close>

theorem invalid_selector_rejected:
  assumes "(TriggerMetadata config podSelectorKey = None
              \<and> (\<exists>sel. labels_Parse L [] = Inr sel \<and> Selector_String L sel = []))
           \<or> (\<exists>err. labels_Parse L (lookup (TriggerMetadata config) podSelectorKey) = Inl err)
           \<or> (\<exists>sel. labels_Parse L (lookup (TriggerMetadata config) podSelectorKey) = Inr sel
                   \<and> Selector_String L sel = [])"
  shows "parseWorkloadMetadata L config = (None, Some (Errorf ''invalid pod selector''))
         \<and> NewKubernetesWorkloadScaler L client config =
             (None, Some (Errorf ''error parsing kubernetes workload metadata: invalid pod selector''))"
proof -
  let ?text = "lookup (TriggerMetadata config) podSelectorKey"
  from assms consider
      (missing) sel where "TriggerMetadata config podSelectorKey = None"
                          "labels_Parse L [] = Inr sel" "Selector_String L sel = []"
    | (refused) err where "labels_Parse L ?text = Inl err"
    | (norequirement) sel where "labels_Parse L ?text = Inr sel" "Selector_String L sel = []"
    by blast
  then have parsed: "parseWorkloadMetadata L config = (None, Some (Errorf ''invalid pod selector''))"
  proof cases
    case missing
    from missing(1) have "?text = []" by (rule lookup_missing)
    with missing(2) have "labels_Parse L ?text = Inr sel" by simp
    then show ?thesis using missing(3) by (rule parseWorkloadMetadata_empty_selector)
  next
    case refused
    then show ?thesis by (rule parseWorkloadMetadata_Parse_error)
  next
    case norequirement
    then show ?thesis by (rule parseWorkloadMetadata_empty_selector)
  qed
  have "NewKubernetesWorkloadScaler L client config =
          (None, Some (Errorf (''error parsing kubernetes workload metadata: ''
                                 @ Error (Errorf ''invalid pod selector''))))"
    using parsed by (rule NewKubernetesWorkloadScaler_error)
  then have "NewKubernetesWorkloadScaler L client config =
          (None, Some (Errorf ''error parsing kubernetes workload metadata: invalid pod selector''))"
    by simp
  with parsed show ?thesis by blast
qed

theorem invalid_selector_rejected_witness:
  "parseWorkloadMetadata textLabels (mkConfig [''value'' \<mapsto> ''5''])
     = (None, Some (Errorf ''invalid pod selector''))
   \<and> parseWorkloadMetadata textLabels (mkConfig [''podSelector'' \<mapsto> ''app in ('', ''value'' \<mapsto> ''5''])
     = (None, Some (Errorf ''invalid pod selector''))
   \<and> parseWorkloadMetadata textLabels (mkConfig [''podSelector'' \<mapsto> '''', ''value'' \<mapsto> ''5''])
     = (None, Some (Errorf ''invalid pod selector''))
   \<and> fst (NewKubernetesWorkloadScaler textLabels (okClient []) (mkConfig [''value'' \<mapsto> ''5''])) = None"
proof -
  have a: "TriggerMetadata (mkConfig [''value'' \<mapsto> ''5'']) podSelectorKey = None
           \<and> (\<exists>sel. labels_Parse textLabels [] = Inr sel \<and> Selector_String textLabels sel = [])"
    by (simp add: mkConfig_def textLabels_def key_defs)
  have b: "\<exists>err. labels_Parse textLabels
             (lookup (TriggerMetadata (mkConfig [''podSelector'' \<mapsto> ''app in ('', ''value'' \<mapsto> ''5'']))
                podSelectorKey) = Inl err"
    by (simp add: mkConfig_def textLabels_def key_defs)
  have c: "\<exists>sel. labels_Parse textLabels
             (lookup (TriggerMetadata (mkConfig [''podSelector'' \<mapsto> '''', ''value'' \<mapsto> ''5'']))
                podSelectorKey) = Inr sel \<and> Selector_String textLabels sel = []"
    by (simp add: mkConfig_def textLabels_def key_defs)
  from invalid_selector_rejected [OF disjI1, OF a, of "okClient []"]
       invalid_selector_rejected [OF disjI2, OF disjI1, OF b, of "okClient []"]
       invalid_selector_rejected [OF disjI2, OF disjI2, OF c, of "okClient []"]
  show ?thesis by simp
qed

text \<open>
  Claim C2 does not hold of the code: the test after \<^verbatim>\<open>ParseInt\<close> is
  \<^verbatim>\<open>meta.value == 0\<close>, so a negative value is accepted and stored in the descriptor,
  although the error text of that very test reads
  \<^verbatim>\<open>value must be an integer greater than 0\<close>.
\<close>

theorem negative_value_accepted:
  assumes "labels_Parse L (lookup (TriggerMetadata config) podSelectorKey) = Inr sel"
      and "Selector_String L sel \<noteq> []"
      and "ParseInt (lookup (TriggerMetadata config) valueKey) = (v, None)"
      and "v < 0"
  shows "parseWorkloadMetadata L config =
           (Some \<lparr>podSelector = sel, namespace = Namespace config,
                   targetValue = v, scalerIndex = ScalerIndex config\<rparr>, None)"
  using parseWorkloadMetadata_value [OF assms(1,2,3)] assms(4) by simp

theorem negative_value_accepted_witness:
  "parseWorkloadMetadata textLabels (mkConfig [''podSelector'' \<mapsto> ''app=web'', ''value'' \<mapsto> ''-5''])
     = (Some \<lparr>podSelector = ''app=web'', namespace = ''prod'', targetValue = - 5, scalerIndex = 0\<rparr>,
        None)"
proof -
  let ?config = "mkConfig [''podSelector'' \<mapsto> ''app=web'', ''value'' \<mapsto> ''-5'']"
  have sel: "labels_Parse textLabels (lookup (TriggerMetadata ?config) podSelectorKey) = Inr ''app=web''"
    by (simp add: mkConfig_def textLabels_def key_defs)
  have str: "Selector_String textLabels ''app=web'' \<noteq> []"
    by (simp add: textLabels_def)
  have val: "ParseInt (lookup (TriggerMetadata ?config) valueKey) = (- 5, None)"
    by (simp add: mkConfig_def key_defs ParseInt_defs)
  have neg: "(- 5 :: int) < 0" by simp
  from negative_value_accepted [OF sel str val neg] show ?thesis
    by (simp add: mkConfig_def)
qed

text \<open>What the test does refuse: a value that is not an integer, and zero.\<close>

lemma parseWorkloadMetadata_rejects_zero_and_non_integer:
  assumes "ParseInt (lookup (TriggerMetadata config) valueKey) = (v, err)"
      and "err \<noteq> None \<or> v = 0"
  shows "\<exists>e. parseWorkloadMetadata L config = (None, Some e)"
proof (cases "labels_Parse L (lookup (TriggerMetadata config) podSelectorKey)")
  case (Inl a)
  then show ?thesis by (simp add: parseWorkloadMetadata_Parse_error)
next
  case (Inr sel)
  show ?thesis
  proof (cases "Selector_String L sel = []")
    case True
    with Inr show ?thesis by (simp add: parseWorkloadMetadata_empty_selector)
  next
    case False
    from parseWorkloadMetadata_value [OF Inr False assms(1)] assms(2) show ?thesis by auto
  qed
qed

subsection \<open>The metric name\<close>

text \<open>Printing a number in decimal loses nothing: the digits give the number back.\<close>

lemma digit_cases:
  "d < 10 \<Longrightarrow> d = 0 \<or> d = 1 \<or> d = 2 \<or> d = 3 \<or> d = 4 \<or> d = 5 \<or> d = 6 \<or> d = 7 \<or> d = 8 \<or> d = (9::nat)"
  by arith

lemma digitVal_digitChar: "d < 10 \<Longrightarrow> digitVal (digitChar d) = d"
  using digit_cases [of d] by (auto simp: digitChar_def digitVal_def)

lemma digitChar_not_minus: "d < 10 \<Longrightarrow> digitChar d \<noteq> CHR ''-''"
  using digit_cases [of d] by (auto simp: digitChar_def)

lemma utoa_small: "n < 10 \<Longrightarrow> utoa n = [digitChar n]"
  by (simp add: utoa.simps)

lemma utoa_large: "\<not> n < 10 \<Longrightarrow> utoa n = utoa (n div 10) @ [digitChar (n mod 10)]"
  by (subst utoa.simps) simp

lemma utoa_value: "foldl (\<lambda>a c. a * 10 + digitVal c) 0 (utoa n) = n"
proof (induction n rule: utoa.induct)
  case (1 n)
  show ?case
  proof (cases "n < 10")
    case True
    then show ?thesis by (simp add: utoa_small digitVal_digitChar)
  next
    case False
    have "n mod 10 < 10" by simp
    then have "digitVal (digitChar (n mod 10)) = n mod 10" by (rule digitVal_digitChar)
    with False "1.IH" show ?thesis by (simp add: utoa_large)
  qed
qed

lemma utoa_inj: "utoa n = utoa m \<Longrightarrow> n = m"
proof -
  assume "utoa n = utoa m"
  then have "foldl (\<lambda>a c. a * 10 + digitVal c) 0 (utoa n)
               = foldl (\<lambda>a c. a * 10 + digitVal c) 0 (utoa m)"
    by simp
  then show "n = m" by (simp only: utoa_value)
qed

lemma utoa_no_minus: "CHR ''-'' \<notin> set (utoa n)"
proof (induction n rule: utoa.induct)
  case (1 n)
  show ?case
  proof (cases "n < 10")
    case True
    then show ?thesis using digitChar_not_minus [of n] by (auto simp: utoa_small)
  next
    case False
    have "digitChar (n mod 10) \<noteq> CHR ''-''" by (rule digitChar_not_minus) simp
    with False "1.IH" show ?thesis by (auto simp: utoa_large)
  qed
qed

lemma itoa_inj: "itoa i = itoa j \<Longrightarrow> i = j"
proof -
  assume eq: "itoa i = itoa j"
  have clash: False if "CHR ''-'' # utoa a = utoa b" for a b
  proof -
    have "CHR ''-'' \<in> set (CHR ''-'' # utoa a)" by simp
    with that have "CHR ''-'' \<in> set (utoa b)" by simp
    with utoa_no_minus show False by blast
  qed
  consider (nn) "i < 0" "j < 0" | (np) "i < 0" "\<not> j < 0" | (pn) "\<not> i < 0" "j < 0"
    | (pp) "\<not> i < 0" "\<not> j < 0" by blast
  then show "i = j"
  proof cases
    case nn
    with eq have "utoa (nat (- i)) = utoa (nat (- j))" by (simp add: itoa_def)
    then have "nat (- i) = nat (- j)" by (rule utoa_inj)
    with nn show ?thesis by simp
  next
    case np
    with eq have "CHR ''-'' # utoa (nat (- i)) = utoa (nat j)" by (simp add: itoa_def)
    then show ?thesis using clash by blast
  next
    case pn
    with eq have "CHR ''-'' # utoa (nat (- j)) = utoa (nat i)" by (simp add: itoa_def)
    then show ?thesis using clash by blast
  next
    case pp
    with eq have "utoa (nat i) = utoa (nat j)" by (simp add: itoa_def)
    then have "nat i = nat j" by (rule utoa_inj)
    with pp show ?thesis by simp
  qed
qed

lemma metricNames_GetMetricSpecForScaling:
  "metricNames (GetMetricSpecForScaling legal s) =
     [GenerateMetricNameWithIndex (scalerIndex (metadata s))
        (NormalizeString legal (''workload-'' @ namespace (metadata s)))]"
  by (simp add: metricNames_def GetMetricSpecForScaling_def)

text \<open>
  Claim C5. The one metric that \<open>GetMetricSpecForScaling\<close> announces is named by
  the index in decimal, then \<^verbatim>\<open>-workload-\<close>, then the normalized namespace. The
  source normalizes the text \<^verbatim>\<open>workload-\<close> together with the namespace, so the
  characters of \<^verbatim>\<open>workload-\<close> have to be legal ones for the prefix to stay.
\<close>

theorem metric_name_format:
  assumes "\<forall>c \<in> set ''workload-''. legal c"
  shows "metricNames (GetMetricSpecForScaling legal s) =
           [itoa (scalerIndex (metadata s)) @ ''-workload-''
              @ NormalizeString legal (namespace (metadata s))]"
proof -
  have "filter legal ''workload-'' = ''workload-''"
    using assms by (simp only: filter_id_conv)
  then have "NormalizeString legal (''workload-'' @ namespace (metadata s))
          = ''workload-'' @ NormalizeString legal (namespace (metadata s))"
    by (simp only: NormalizeString_def filter_append)
  then show ?thesis
    by (simp add: metricNames_GetMetricSpecForScaling GenerateMetricNameWithIndex_def)
qed

theorem metric_name_format_witness:
  "metricNames (GetMetricSpecForScaling (\<lambda>c. c \<notin> set ''/.:%'')
      \<lparr>metadata = \<lparr>podSelector = ''app=web'', namespace = ''team/a.b'', targetValue = 5, scalerIndex = 12\<rparr>,
        kubeClient = okClient []\<rparr>)
   = [''12-workload-teamab'']"
proof -
  have "\<forall>c \<in> set ''workload-''. (\<lambda>c. c \<notin> set ''/.:%'') c" by simp
  from metric_name_format
         [OF this,
          of "\<lparr>metadata = \<lparr>podSelector = ''app=web'', namespace = ''team/a.b'',
                            targetValue = 5, scalerIndex = 12\<rparr>,
               kubeClient = okClient []\<rparr>"]
  show ?thesis
    by (simp add: NormalizeString_def itoa_def utoa.simps digitChar_def)
qed

text \<open>
  Claim C7. \<open>GetMetricSpecForScaling\<close> reads nothing but the descriptor: two scalers
  with the same descriptor give the same specs whatever their clients answer. Every
  scaler announces exactly one metric name; and two descriptors with the same namespace
  and different indices (in particular two that differ in the index only) announce
  different names: the two lists of names are unequal and have no name in common.
\<close>

theorem spec_deterministic_and_index_distinct:
  "(metadata s = metadata t
      \<longrightarrow> GetMetricSpecForScaling legal s = GetMetricSpecForScaling legal t)
   \<and> length (metricNames (GetMetricSpecForScaling legal s)) = 1
   \<and> length (metricNames (GetMetricSpecForScaling legal t)) = 1
   \<and> (namespace (metadata s) = namespace (metadata t)
        \<and> scalerIndex (metadata s) \<noteq> scalerIndex (metadata t)
      \<longrightarrow> metricNames (GetMetricSpecForScaling legal s)
            \<noteq> metricNames (GetMetricSpecForScaling legal t)
          \<and> set (metricNames (GetMetricSpecForScaling legal s))
            \<inter> set (metricNames (GetMetricSpecForScaling legal t)) = {})"
proof (intro conjI impI)
  assume "metadata s = metadata t"
  then show "GetMetricSpecForScaling legal s = GetMetricSpecForScaling legal t"
    by (simp add: GetMetricSpecForScaling_def)
next
  show "length (metricNames (GetMetricSpecForScaling legal s)) = 1"
    by (simp only: metricNames_GetMetricSpecForScaling) simp
next
  show "length (metricNames (GetMetricSpecForScaling legal t)) = 1"
    by (simp only: metricNames_GetMetricSpecForScaling) simp
next
  assume a: "namespace (metadata s) = namespace (metadata t)
             \<and> scalerIndex (metadata s) \<noteq> scalerIndex (metadata t)"
  let ?rest = "''-'' @ NormalizeString legal (''workload-'' @ namespace (metadata s))"
  have "itoa (scalerIndex (metadata s)) \<noteq> itoa (scalerIndex (metadata t))"
    using a itoa_inj by blast
  then have names: "itoa (scalerIndex (metadata s)) @ ?rest
                      \<noteq> itoa (scalerIndex (metadata t)) @ ?rest"
    by (simp only: append_same_eq not_False_eq_True)
  with a show "metricNames (GetMetricSpecForScaling legal s)
                 \<noteq> metricNames (GetMetricSpecForScaling legal t)"
    by (simp add: metricNames_GetMetricSpecForScaling GenerateMetricNameWithIndex_def)
  from names a show "set (metricNames (GetMetricSpecForScaling legal s))
            \<inter> set (metricNames (GetMetricSpecForScaling legal t)) = {}"
    by (simp add: metricNames_GetMetricSpecForScaling GenerateMetricNameWithIndex_def)
qed

text \<open>
  Two scalers with one descriptor and different clients give the same specs; the
  descriptor with index 0 announces \<^verbatim>\<open>0-workload-prod\<close>, the one that differs from
  it in the index only, \<^verbatim>\<open>1-workload-prod\<close>.
\<close>

theorem spec_deterministic_and_index_distinct_witness:
  "GetMetricSpecForScaling (\<lambda>c. c \<notin> set ''/.:%'') (mkScaler (okClient []))
     = GetMetricSpecForScaling (\<lambda>c. c \<notin> set ''/.:%'') (mkScaler (failingClient (ForeignError ''timeout'')))
   \<and> metricNames (GetMetricSpecForScaling (\<lambda>c. c \<notin> set ''/.:%'') (mkScaler (okClient [])))
       = [''0-workload-prod'']
   \<and> metricNames (GetMetricSpecForScaling (\<lambda>c. c \<notin> set ''/.:%'')
         ((mkScaler (okClient []))\<lparr>metadata := (metadata (mkScaler (okClient [])))\<lparr>scalerIndex := 1\<rparr>\<rparr>))
       = [''1-workload-prod'']
   \<and> metricNames (GetMetricSpecForScaling (\<lambda>c. c \<notin> set ''/.:%'') (mkScaler (okClient [])))
       \<noteq> metricNames (GetMetricSpecForScaling (\<lambda>c. c \<notin> set ''/.:%'')
            ((mkScaler (okClient []))\<lparr>metadata := (metadata (mkScaler (okClient [])))\<lparr>scalerIndex := 1\<rparr>\<rparr>))"
proof -
  let ?legal = "\<lambda>c. c \<notin> set ''/.:%''"
  let ?s = "mkScaler (okClient [])"
  let ?t = "?s\<lparr>metadata := (metadata ?s)\<lparr>scalerIndex := 1\<rparr>\<rparr>"
  have same: "metadata ?s = metadata (mkScaler (failingClient (ForeignError ''timeout'')))"
    by (simp add: mkScaler_def)
  have differ: "namespace (metadata ?s) = namespace (metadata ?t)
                \<and> scalerIndex (metadata ?s) \<noteq> scalerIndex (metadata ?t)"
    by (simp add: mkScaler_def)
  have one: "GetMetricSpecForScaling ?legal ?s
               = GetMetricSpecForScaling ?legal (mkScaler (failingClient (ForeignError ''timeout'')))"
    using spec_deterministic_and_index_distinct
            [of ?s "mkScaler (failingClient (ForeignError ''timeout''))" ?legal] same
    by blast
  have two: "metricNames (GetMetricSpecForScaling ?legal ?s)
               \<noteq> metricNames (GetMetricSpecForScaling ?legal ?t)"
    using spec_deterministic_and_index_distinct [of ?s ?t ?legal] differ
    by blast
  have zero: "metricNames (GetMetricSpecForScaling ?legal ?s) = [''0-workload-prod'']"
    by (simp add: metricNames_GetMetricSpecForScaling GenerateMetricNameWithIndex_def
          NormalizeString_def itoa_def utoa.simps digitChar_def mkScaler_def)
  have first: "metricNames (GetMetricSpecForScaling ?legal ?t) = [''1-workload-prod'']"
    by (simp add: metricNames_GetMetricSpecForScaling GenerateMetricNameWithIndex_def
          NormalizeString_def itoa_def utoa.simps digitChar_def mkScaler_def)
  from one zero first two show ?thesis by blast
qed

end
